theory Spec2Isabelle
  imports Complex_Main
begin

section \<open>Numbers, errors and completions\<close>

text \<open>
  The simulation computes on JavaScript numbers. They are modelled as the reals: every
  arithmetic step is exact, and there is no NaN and no infinity. Where JavaScript would
  divide by zero without throwing (and produce NaN or an infinity), HOL's \<open>x / 0 = 0\<close>
  appears instead; theorems about computed values therefore carry the hypothesis that the
  divisor is not zero.

  A method that mutates its receiver and may throw is a function from the receiver's state
  to a completion: \<open>Normal s\<close> is a normal return in state \<open>s\<close>, \<open>Throw e s\<close> is the
  exception \<open>e\<close> leaving the state \<open>s\<close> behind (mutations made before the throw stay).
\<close>

datatype error = Error string | ReferenceError string

datatype 's completion = Normal 's | Throw error 's

fun state_of :: "'s completion \<Rightarrow> 's" where
  "state_of (Normal s) = s"
| "state_of (Throw e s) = s"

fun thrown :: "'s completion \<Rightarrow> error option" where
  "thrown (Normal s) = None"
| "thrown (Throw e s) = Some e"

section \<open>Vector2D\<close>

record Vector2D =
  x :: real
  y :: real

definition clone :: "Vector2D \<Rightarrow> Vector2D" where
  "clone v = \<lparr>x = x v, y = y v\<rparr>"

definition set_vec :: "Vector2D \<Rightarrow> real \<Rightarrow> real \<Rightarrow> Vector2D" where
  "set_vec v nx ny = v\<lparr>x := nx, y := ny\<rparr>"

definition add :: "Vector2D \<Rightarrow> Vector2D \<Rightarrow> Vector2D" where
  "add v w = v\<lparr>x := x v + x w, y := y v + y w\<rparr>"

definition subtract :: "Vector2D \<Rightarrow> Vector2D \<Rightarrow> Vector2D" where
  "subtract v w = v\<lparr>x := x v - x w, y := y v - y w\<rparr>"

definition multiply :: "Vector2D \<Rightarrow> real \<Rightarrow> Vector2D" where
  "multiply v scalar = v\<lparr>x := x v * scalar, y := y v * scalar\<rparr>"

text \<open>\<open>divide\<close> throws before it touches the receiver when the scalar is zero.\<close>

definition divide_vec :: "Vector2D \<Rightarrow> real \<Rightarrow> Vector2D completion" where
  "divide_vec v scalar =
     (if scalar = 0 then Throw (Error ''Cannot divide vector by zero'') v
      else Normal (v\<lparr>x := x v / scalar, y := y v / scalar\<rparr>))"

definition magnitude :: "Vector2D \<Rightarrow> real" where
  "magnitude v = sqrt (x v * x v + y v * y v)"

definition magnitudeSquared :: "Vector2D \<Rightarrow> real" where
  "magnitudeSquared v = x v * x v + y v * y v"

text \<open>
  \<open>normalize\<close> calls \<open>divide\<close> only under the guard \<open>mag > 0\<close>; the model keeps the call,
  so that a throw of \<open>divide\<close> would propagate.
\<close>

definition normalize_vec :: "Vector2D \<Rightarrow> Vector2D completion" where
  "normalize_vec v =
     (let mag = magnitude v in
      if mag > 0 then divide_vec v mag else Normal v)"

definition dot :: "Vector2D \<Rightarrow> Vector2D \<Rightarrow> real" where
  "dot v w = x v * x w + y v * y w"

definition distance :: "Vector2D \<Rightarrow> Vector2D \<Rightarrow> real" where
  "distance v w =
     (let dx = x v - x w; dy = y v - y w in sqrt (dx * dx + dy * dy))"

definition distanceSquared :: "Vector2D \<Rightarrow> Vector2D \<Rightarrow> real" where
  "distanceSquared v w =
     (let dx = x v - x w; dy = y v - y w in dx * dx + dy * dy)"

definition limit :: "Vector2D \<Rightarrow> real \<Rightarrow> Vector2D completion" where
  "limit v mx =
     (let magSq = magnitudeSquared v in
      if magSq > mx * mx then
        (case normalize_vec v of
           Throw e v' \<Rightarrow> Throw e v'
         | Normal v' \<Rightarrow> Normal (multiply v' mx))
      else Normal v)"

section \<open>Ball\<close>

text \<open>
  The fields of a ball that the physics reads or writes. The colour, the collision list, the
  multicolour flag and the trail reference play no part in it and are left out. \<open>mass\<close> is a
  stored field (the constructor sets it to \<open>size * size\<close>).
\<close>

record Ball =
  id_ball :: nat
  position :: Vector2D
  velocity :: Vector2D
  acceleration :: Vector2D
  size_ball :: real
  gravity :: real
  mass :: real
  isFrozen :: bool

text \<open>
  The constructor, called with every option given as a number: \<open>options.size || defaultSize\<close>
  replaces a size of zero by the default 20, and the mass is the square of the size.
\<close>

definition Ball_new :: "nat \<Rightarrow> real \<Rightarrow> real \<Rightarrow> real \<Rightarrow> real \<Rightarrow> real \<Rightarrow> real \<Rightarrow> Ball" where
  "Ball_new ident px py vx vy sz g =
     (let s = (if sz = 0 then 20 else sz)
      in \<lparr>id_ball = ident, position = \<lparr>x = px, y = py\<rparr>, velocity = \<lparr>x = vx, y = vy\<rparr>,
          acceleration = \<lparr>x = 0, y = 0\<rparr>, size_ball = s, gravity = g, mass = s * s,
          isFrozen = False\<rparr>)"

text \<open>\<open>Config.physics.limits.maxVelocity\<close>\<close>

definition maxVelocity :: real where
  "maxVelocity = 500"

definition Ball_update :: "Ball \<Rightarrow> real \<Rightarrow> Ball completion" where
  "Ball_update b deltaTime =
     (if isFrozen b then Normal b
      else
        let b1 = (if gravity b \<noteq> 0
                  then b\<lparr>acceleration := (acceleration b)\<lparr>y := gravity b\<rparr>\<rparr>
                  else b);
            b2 = b1\<lparr>velocity := add (velocity b1)
                     \<lparr>x = x (acceleration b1) * deltaTime,
                      y = y (acceleration b1) * deltaTime\<rparr>\<rparr>
        in case limit (velocity b2) maxVelocity of
             Throw e v \<Rightarrow> Throw e (b2\<lparr>velocity := v\<rparr>)
           | Normal v \<Rightarrow>
               let b3 = b2\<lparr>velocity := v\<rparr>;
                   b4 = b3\<lparr>position := add (position b3)
                            \<lparr>x = x (velocity b3) * deltaTime,
                             y = y (velocity b3) * deltaTime\<rparr>\<rparr>
               in Normal (b4\<lparr>acceleration := set_vec (acceleration b4) 0 0\<rparr>))"

definition isCollidingWith :: "Ball \<Rightarrow> Ball \<Rightarrow> bool" where
  "isCollidingWith this other =
     (let dist = distance (position this) (position other);
          minDistance = size_ball this + size_ball other
      in dist < minDistance)"

text \<open>
  \<open>freeze\<close> ends with \<open>this.acceleration.set(0, a, 0)\<close>. The identifier \<open>a\<close> is declared
  neither in the method nor in the module, so evaluating the arguments looks it up in the
  enclosing (global) scope, which is a parameter here: unbound, the lookup throws a
  ReferenceError before \<open>set\<close> is called; bound to a number, \<open>set\<close> receives it as its
  second argument and ignores the third.
\<close>

definition freeze :: "(string \<Rightarrow> real option) \<Rightarrow> Ball \<Rightarrow> Ball completion" where
  "freeze scope b =
     (let b1 = b\<lparr>isFrozen := True\<rparr>;
          b2 = b1\<lparr>velocity := set_vec (velocity b1) 0 0\<rparr>
      in case scope ''a'' of
           None \<Rightarrow> Throw (ReferenceError ''a is not defined'') b2
         | Some a \<Rightarrow> Normal (b2\<lparr>acceleration := set_vec (acceleration b2) 0 a\<rparr>))"

definition unfreeze :: "Ball \<Rightarrow> Ball completion" where
  "unfreeze b = Normal (b\<lparr>isFrozen := False\<rparr>)"

section \<open>Engine\<close>

record Dimensions =
  width :: real
  height :: real

text \<open>
  The engine's state: its balls, the pause flag and the canvas of its rendering system
  (what \<open>getCanvasDimensions\<close> reads). Every ball of \<open>balls\<close> is an object of its own
  (\<open>addBall\<close> creates one per call), so the array is a list of ball states.
\<close>

record Engine =
  balls :: "Ball list"
  nextBallId :: nat
  isPaused :: bool
  canvas :: Dimensions

definition getCanvasDimensions :: "Engine \<Rightarrow> Dimensions" where
  "getCanvasDimensions e = \<lparr>width = width (canvas e), height = height (canvas e)\<rparr>"

text \<open>The body of the second \<open>forEach\<close> of \<open>Engine.update\<close>: the boundary checks of one ball.\<close>

definition boundaryChecks :: "Dimensions \<Rightarrow> Ball \<Rightarrow> Ball" where
  "boundaryChecks dimensions ball =
     (let ball1 =
        (if x (position ball) - size_ball ball < 0 then
           ball\<lparr>position := (position ball)\<lparr>x := size_ball ball\<rparr>,
                velocity := (velocity ball)\<lparr>x := - x (velocity ball) * 0.8\<rparr>\<rparr>
         else if x (position ball) + size_ball ball > width dimensions then
           ball\<lparr>position := (position ball)\<lparr>x := width dimensions - size_ball ball\<rparr>,
                velocity := (velocity ball)\<lparr>x := - x (velocity ball) * 0.8\<rparr>\<rparr>
         else ball)
      in
        if y (position ball1) - size_ball ball1 < 0 then
          ball1\<lparr>position := (position ball1)\<lparr>y := size_ball ball1\<rparr>,
                velocity := (velocity ball1)\<lparr>y := - y (velocity ball1) * 0.8\<rparr>\<rparr>
        else if y (position ball1) + size_ball ball1 > height dimensions then
          ball1\<lparr>position := (position ball1)\<lparr>y := height dimensions - size_ball ball1\<rparr>,
                velocity := (velocity ball1)\<lparr>y := - y (velocity ball1) * 0.8\<rparr>\<rparr>
        else ball1)"

text \<open>
  The first \<open>forEach\<close>: \<open>ball.update(deltaTime)\<close> on every ball in order. A throw ends the
  loop, leaving the remaining balls untouched.
\<close>

fun forEach_update :: "Ball list \<Rightarrow> real \<Rightarrow> Ball list completion" where
  "forEach_update [] deltaTime = Normal []"
| "forEach_update (ball # rest) deltaTime =
     (case Ball_update ball deltaTime of
        Throw e ball' \<Rightarrow> Throw e (ball' # rest)
      | Normal ball' \<Rightarrow>
          (case forEach_update rest deltaTime of
             Throw e rest' \<Rightarrow> Throw e (ball' # rest')
           | Normal rest' \<Rightarrow> Normal (ball' # rest')))"

definition Engine_update :: "Engine \<Rightarrow> real \<Rightarrow> Engine completion" where
  "Engine_update e deltaTime =
     (if isPaused e then Normal e
      else
        case forEach_update (balls e) deltaTime of
          Throw err bs \<Rightarrow> Throw err (e\<lparr>balls := bs\<rparr>)
        | Normal bs \<Rightarrow>
            let dimensions = getCanvasDimensions e
            in Normal (e\<lparr>balls := map (boundaryChecks dimensions) bs\<rparr>))"

section \<open>PhysicsSystem\<close>

definition areColliding :: "Ball \<Rightarrow> Ball \<Rightarrow> bool" where
  "areColliding ballA ballB =
     (let dist = distance (position ballA) (position ballB);
          minDistance = size_ball ballA + size_ball ballB
      in dist < minDistance)"

text \<open>
  \<open>collisionPairs\<close> holds references to balls of the array: a pair is a pair of indices into
  \<open>balls\<close>. The outer loop skips a frozen \<open>ballA\<close>, the inner loop a frozen \<open>ballB\<close>.
\<close>

definition generateCollisionPairs :: "Ball list \<Rightarrow> (nat \<times> nat) list" where
  "generateCollisionPairs bs =
     [(i, j). i \<leftarrow> [0..<length bs], \<not> isFrozen (bs ! i),
              j \<leftarrow> [i + 1..<length bs], \<not> isFrozen (bs ! j),
              areColliding (bs ! i) (bs ! j)]"

text \<open>
  The statement \<open>if (!ball.isFrozen) ball.velocity.subtract(imp.clone().divide(ball.mass))\<close>
  of \<open>resolveCollision\<close>, and the same with \<open>add\<close>. \<open>divide\<close> works on a clone, so a throw
  leaves the ball as it was.
\<close>

definition subtractImpulse :: "Ball \<Rightarrow> Vector2D \<Rightarrow> Ball completion" where
  "subtractImpulse ball imp =
     (if \<not> isFrozen ball then
        (case divide_vec (clone imp) (mass ball) of
           Throw e q \<Rightarrow> Throw e ball
         | Normal q \<Rightarrow> Normal (ball\<lparr>velocity := subtract (velocity ball) q\<rparr>))
      else Normal ball)"

definition addImpulse :: "Ball \<Rightarrow> Vector2D \<Rightarrow> Ball completion" where
  "addImpulse ball imp =
     (if \<not> isFrozen ball then
        (case divide_vec (clone imp) (mass ball) of
           Throw e q \<Rightarrow> Throw e ball
         | Normal q \<Rightarrow> Normal (ball\<lparr>velocity := add (velocity ball) q\<rparr>))
      else Normal ball)"

text \<open>
  \<open>resolveCollision\<close> on two distinct balls (the pairs have \<open>i < j\<close>); the state is the
  pair of them. \<open>deltaTime\<close> is a parameter the body never reads.
\<close>

definition resolveCollision :: "Ball \<Rightarrow> Ball \<Rightarrow> real \<Rightarrow> (Ball \<times> Ball) completion" where
  "resolveCollision ballA ballB deltaTime =
     (let normal0 = \<lparr>x = x (position ballB) - x (position ballA),
                     y = y (position ballB) - y (position ballA)\<rparr>;
          dist = magnitude normal0
      in case (if dist = 0 then Normal (set_vec normal0 1 0) else normalize_vec normal0) of
           Throw e n \<Rightarrow> Throw e (ballA, ballB)
         | Normal normal \<Rightarrow>
             let overlap = (size_ball ballA + size_ball ballB) - dist;
                 totalMass = mass ballA + mass ballB;
                 ratioA = mass ballB / totalMass;
                 ratioB = mass ballA / totalMass;
                 a1 = (if \<not> isFrozen ballA
                       then ballA\<lparr>position := subtract (position ballA)
                                      (multiply (clone normal) (overlap * ratioA))\<rparr>
                       else ballA);
                 b1 = (if \<not> isFrozen ballB
                       then ballB\<lparr>position := add (position ballB)
                                      (multiply (clone normal) (overlap * ratioB))\<rparr>
                       else ballB)
             in if isFrozen a1 \<and> isFrozen b1 then Normal (a1, b1)
                else
                  let relativeVelocity = \<lparr>x = x (velocity b1) - x (velocity a1),
                                          y = y (velocity b1) - y (velocity a1)\<rparr>;
                      velocityAlongNormal = dot relativeVelocity normal
                  in if velocityAlongNormal > 0 then Normal (a1, b1)
                     else
                       let restitution = 0.8;
                           j = (- (1 + restitution) * velocityAlongNormal)
                                 / ((1 / mass a1) + (1 / mass b1));
                           impulse = multiply (clone normal) j
                       in case subtractImpulse a1 impulse of
                            Throw e a2 \<Rightarrow> Throw e (a2, b1)
                          | Normal a2 \<Rightarrow>
                              (case addImpulse b1 impulse of
                                 Throw e b2 \<Rightarrow> Throw e (a2, b2)
                               | Normal b2 \<Rightarrow>
                                   let friction = 0.05;
                                       tangent = \<lparr>x = - y normal, y = x normal\<rparr>;
                                       velocityAlongTangent = dot relativeVelocity tangent;
                                       jt = (- velocityAlongTangent * friction)
                                              / ((1 / mass a2) + (1 / mass b2));
                                       tangentImpulse = multiply (clone tangent) jt
                                   in case subtractImpulse a2 tangentImpulse of
                                        Throw e a3 \<Rightarrow> Throw e (a3, b2)
                                      | Normal a3 \<Rightarrow>
                                          (case addImpulse b2 tangentImpulse of
                                             Throw e b3 \<Rightarrow> Throw e (a3, b3)
                                           | Normal b3 \<Rightarrow> Normal (a3, b3))))"

text \<open>
  \<open>resolveCollisions\<close> resolves the pairs in order, each on the balls as the earlier pairs
  left them; a throw ends the loop.
\<close>

fun resolveCollisions :: "(nat \<times> nat) list \<Rightarrow> Ball list \<Rightarrow> real \<Rightarrow> Ball list completion" where
  "resolveCollisions [] bs deltaTime = Normal bs"
| "resolveCollisions ((i, j) # rest) bs deltaTime =
     (case resolveCollision (bs ! i) (bs ! j) deltaTime of
        Throw e (ballA, ballB) \<Rightarrow> Throw e (bs[i := ballA, j := ballB])
      | Normal (ballA, ballB) \<Rightarrow> resolveCollisions rest (bs[i := ballA, j := ballB]) deltaTime)"

text \<open>\<open>updateQuadtree\<close> has an empty body; \<open>update\<close> goes on to the all-pairs scan.\<close>

definition PhysicsSystem_update :: "Ball list \<Rightarrow> real \<Rightarrow> Dimensions \<Rightarrow> Ball list completion" where
  "PhysicsSystem_update bs deltaTime dimensions =
     (if length bs \<le> 1 then Normal bs
      else resolveCollisions (generateCollisionPairs bs) bs deltaTime)"

section \<open>Quadtree\<close>

text \<open>
  A node stores the balls themselves; the identity test \<open>current !== object\<close> of \<open>query\<close> is
  equality of ball states (balls of one engine differ in their id). \<open>capacity\<close>, \<open>maxDepth\<close>
  and \<open>depth\<close> are natural numbers. The assignments to \<open>this.objects\<close>, \<open>this.divided\<close> and
  \<open>this.children\<close> are the three setters.
\<close>

record Bounds =
  bounds_x :: real
  bounds_y :: real
  bounds_width :: real
  bounds_height :: real

datatype jsval = JUndefined | JBool bool

datatype Quadtree =
  Quadtree (bounds: Bounds) (capacity: nat) (maxDepth: nat) (depth: nat)
           (objects: "Ball list") (divided: bool) (children: "Quadtree list")

text \<open>The constructor.\<close>

definition new_Quadtree :: "Bounds \<Rightarrow> nat \<Rightarrow> nat \<Rightarrow> nat \<Rightarrow> Quadtree" where
  "new_Quadtree b cap md d = Quadtree b cap md d [] False []"

definition set_objects :: "Quadtree \<Rightarrow> Ball list \<Rightarrow> Quadtree" where
  "set_objects t objs =
     Quadtree (bounds t) (capacity t) (maxDepth t) (depth t) objs (divided t) (children t)"

definition set_divided :: "Quadtree \<Rightarrow> bool \<Rightarrow> Quadtree" where
  "set_divided t dv =
     Quadtree (bounds t) (capacity t) (maxDepth t) (depth t) (objects t) dv (children t)"

definition set_children :: "Quadtree \<Rightarrow> Quadtree list \<Rightarrow> Quadtree" where
  "set_children t cs =
     Quadtree (bounds t) (capacity t) (maxDepth t) (depth t) (objects t) (divided t) cs"

definition contains :: "Quadtree \<Rightarrow> Ball \<Rightarrow> bool" where
  "contains t object =
     (x (position object) - size_ball object \<ge> bounds_x (bounds t) \<and>
      x (position object) + size_ball object \<le> bounds_x (bounds t) + bounds_width (bounds t) \<and>
      y (position object) - size_ball object \<ge> bounds_y (bounds t) \<and>
      y (position object) + size_ball object \<le> bounds_y (bounds t) + bounds_height (bounds t))"

definition intersects :: "Quadtree \<Rightarrow> Ball \<Rightarrow> bool" where
  "intersects t object =
     (\<not> (x (position object) - size_ball object > bounds_x (bounds t) + bounds_width (bounds t) \<or>
         x (position object) + size_ball object < bounds_x (bounds t) \<or>
         y (position object) - size_ball object > bounds_y (bounds t) + bounds_height (bounds t) \<or>
         y (position object) + size_ball object < bounds_y (bounds t)))"

text \<open>The four nodes that \<open>subdivide\<close> creates, in the order of their indices: NE, NW, SW, SE.\<close>

definition quadrants :: "Quadtree \<Rightarrow> Quadtree list" where
  "quadrants t =
     (let x0 = bounds_x (bounds t);
          y0 = bounds_y (bounds t);
          halfWidth = bounds_width (bounds t) / 2;
          halfHeight = bounds_height (bounds t) / 2;
          nextDepth = depth t + 1
      in [new_Quadtree \<lparr>bounds_x = x0 + halfWidth, bounds_y = y0,
                         bounds_width = halfWidth, bounds_height = halfHeight\<rparr>
            (capacity t) (maxDepth t) nextDepth,
          new_Quadtree \<lparr>bounds_x = x0, bounds_y = y0,
                         bounds_width = halfWidth, bounds_height = halfHeight\<rparr>
            (capacity t) (maxDepth t) nextDepth,
          new_Quadtree \<lparr>bounds_x = x0, bounds_y = y0 + halfHeight,
                         bounds_width = halfWidth, bounds_height = halfHeight\<rparr>
            (capacity t) (maxDepth t) nextDepth,
          new_Quadtree \<lparr>bounds_x = x0 + halfWidth, bounds_y = y0 + halfHeight,
                         bounds_width = halfWidth, bounds_height = halfHeight\<rparr>
            (capacity t) (maxDepth t) nextDepth])"

text \<open>
  \<open>query\<close> pushes onto the one array \<open>found\<close> that it hands down to the children, so the
  model threads it through them.
\<close>

fun query :: "Quadtree \<Rightarrow> Ball \<Rightarrow> Ball list \<Rightarrow> Ball list" where
  "query (Quadtree b cap md d objs dv cs) object found =
     (if \<not> intersects (Quadtree b cap md d objs dv cs) object then found
      else
        let found1 = found @ filter (\<lambda>current. current \<noteq> object) objs
        in if dv then fold (\<lambda>child acc. query child object acc) cs found1 else found1)"

text \<open>
  \<open>insert\<close>, \<open>insertToChildren\<close> and \<open>subdivide\<close> call one another. \<open>subdivide\<close> assigns the
  four new nodes to \<open>children[0..3]\<close> (entries beyond the fourth stay), sets \<open>divided\<close>, and
  \<open>redistribute\<close> is its loop over \<open>this.objects\<close>. \<open>insertToChildren\<close> has no \<open>return\<close>
  statement, so it returns \<open>undefined\<close>, which \<open>insert\<close> passes on.

  \<open>work\<close> bounds the depth of the calls below a node, for the termination proof.
\<close>

fun work :: "Quadtree \<Rightarrow> nat" where
  "work (Quadtree b cap md d objs dv cs) =
     Suc (max (md - Suc d)
            (Max (insert 0 ((\<lambda>c. if maxDepth c \<le> depth c then 0 else work c) ` set cs))))"

definition insert_work :: "Quadtree \<Rightarrow> nat" where
  "insert_work t = (if maxDepth t \<le> depth t then 0 else work t)"

definition keeps :: "Quadtree \<Rightarrow> Quadtree \<Rightarrow> bool" where
  "keeps t t' = (maxDepth t' = maxDepth t \<and> depth t' = depth t \<and> work t' \<le> work t)"

function insert_qt :: "Quadtree \<Rightarrow> Ball \<Rightarrow> Quadtree \<times> jsval"
  and insertToChildren :: "Quadtree \<Rightarrow> Ball \<Rightarrow> Quadtree \<times> jsval"
  and subdivide :: "Quadtree \<Rightarrow> Quadtree"
  and redistribute :: "Quadtree \<Rightarrow> Ball list \<Rightarrow> Quadtree"
where
  "insert_qt t object =
     (if \<not> intersects t object then (t, JBool False)
      else if \<not> divided t \<and> length (objects t) < capacity t
        then (set_objects t (objects t @ [object]), JBool True)
      else if depth t \<ge> maxDepth t
        then (set_objects t (objects t @ [object]), JBool True)
      else insertToChildren (if \<not> divided t then subdivide t else t) object)"
| "insertToChildren t object =
     (set_children t
        (map (\<lambda>child. if contains child object then fst (insert_qt child object) else child)
           (children t)),
      JUndefined)"
| "subdivide t =
     (let t1 = set_divided (set_children t (quadrants t @ drop 4 (children t))) True;
          t2 = redistribute t1 (objects t1)
      in set_objects t2 [])"
| "redistribute t [] = t"
| "redistribute t (object # rest) = redistribute (fst (insertToChildren t object)) rest"
  by pat_completeness auto

section \<open>Quantities of a collision\<close>

text \<open>
  The values \<open>resolveCollision\<close> computes in local variables, named so that theorems can
  speak of them: the unit normal from A to B (\<open>(1, 0)\<close> when the centres coincide), the
  overlap, and the velocity of B relative to A.
\<close>

definition contactNormal :: "Ball \<Rightarrow> Ball \<Rightarrow> Vector2D" where
  "contactNormal a b =
     (let d = distance (position b) (position a)
      in if d = 0 then \<lparr>x = 1, y = 0\<rparr>
         else \<lparr>x = (x (position b) - x (position a)) / d,
               y = (y (position b) - y (position a)) / d\<rparr>)"

definition penetrationDepth :: "Ball \<Rightarrow> Ball \<Rightarrow> real" where
  "penetrationDepth a b = (size_ball a + size_ball b) - distance (position a) (position b)"

definition relativeVelocity :: "Ball \<Rightarrow> Ball \<Rightarrow> Vector2D" where
  "relativeVelocity a b =
     \<lparr>x = x (velocity b) - x (velocity a), y = y (velocity b) - y (velocity a)\<rparr>"

section \<open>Example inputs\<close>

text \<open>Two balls of radius 20 whose centres are exactly 40 apart, and the same two 30 apart.\<close>

definition touchingA :: Ball where "touchingA = Ball_new 1 90 100 50 0 20 0"
definition touchingB :: Ball where "touchingB = Ball_new 2 130 100 (- 50) 0 20 0"
definition overlapA :: Ball where "overlapA = Ball_new 1 95 100 50 0 20 0"
definition overlapB :: Ball where "overlapB = Ball_new 2 125 100 (- 50) 0 20 0"

text \<open>A frozen ball and a moving ball that overlaps it by 10.\<close>

definition frozenA :: Ball where "frozenA = (Ball_new 1 0 0 0 0 20 0)\<lparr>isFrozen := True\<rparr>"
definition movingB :: Ball where "movingB = Ball_new 2 30 0 (- 10) 0 20 0"

text \<open>An 800 by 600 canvas, a ball across its left and bottom edges, one across its right edge.\<close>

definition arena :: Dimensions where "arena = \<lparr>width = 800, height = 600\<rparr>"
definition leftBottomBall :: Ball where "leftBottomBall = Ball_new 1 5 590 (- 30) 10 20 9.8"
definition rightBall :: Ball where "rightBall = Ball_new 2 790 300 40 5 20 9.8"

text \<open>Two engines that differ only in their second ball.\<close>

definition engineA :: Engine where
  "engineA = \<lparr>balls = [leftBottomBall, rightBall], nextBallId = 3, isPaused = False,
               canvas = arena\<rparr>"
definition engineB :: Engine where
  "engineB = \<lparr>balls = [leftBottomBall,
                         rightBall\<lparr>position := \<lparr>x = 30, y = 585\<rparr>, isFrozen := True\<rparr>],
               nextBallId = 3, isPaused = False, canvas = arena\<rparr>"

text \<open>
  A tree of capacity 1 over a 100 by 100 arena; a ball on the centre of the arena, across all
  four quadrant borders; a ball in the north-west quadrant; a ball that overlaps the first.
\<close>

definition arenaTree :: Quadtree where
  "arenaTree = new_Quadtree
     \<lparr>bounds_x = 0, bounds_y = 0, bounds_width = 100, bounds_height = 100\<rparr> 1 5 0"
definition straddler :: Ball where "straddler = Ball_new 1 50 50 0 0 5 0"
definition cornerBall :: Ball where "cornerBall = Ball_new 2 10 10 0 0 5 0"
definition probe :: Ball where "probe = Ball_new 3 52 50 0 0 5 0"

definition quadrantNE :: Quadtree where
  "quadrantNE = Quadtree
     \<lparr>bounds_x = 50, bounds_y = 0, bounds_width = 50, bounds_height = 50\<rparr> 1 5 1 [] False []"
definition quadrantNW :: "Ball list \<Rightarrow> Quadtree" where
  "quadrantNW objs = Quadtree
     \<lparr>bounds_x = 0, bounds_y = 0, bounds_width = 50, bounds_height = 50\<rparr> 1 5 1 objs False []"
definition quadrantSW :: Quadtree where
  "quadrantSW = Quadtree
     \<lparr>bounds_x = 0, bounds_y = 50, bounds_width = 50, bounds_height = 50\<rparr> 1 5 1 [] False []"
definition quadrantSE :: Quadtree where
  "quadrantSE = Quadtree
     \<lparr>bounds_x = 50, bounds_y = 50, bounds_width = 50, bounds_height = 50\<rparr> 1 5 1 [] False []"

definition oneBallTree :: Quadtree where
  "oneBallTree = Quadtree
     \<lparr>bounds_x = 0, bounds_y = 0, bounds_width = 100, bounds_height = 100\<rparr> 1 5 0
     [straddler] False []"
definition splitTree :: Quadtree where
  "splitTree = Quadtree
     \<lparr>bounds_x = 0, bounds_y = 0, bounds_width = 100, bounds_height = 100\<rparr> 1 5 0
     [] True [quadrantNE, quadrantNW [cornerBall], quadrantSW, quadrantSE]"

section \<open>Theorems\<close>

subsection \<open>Termination of Quadtree.insert\<close>

lemma work_eq:
  "work t = Suc (max (maxDepth t - Suc (depth t)) (Max (insert 0 (insert_work ` set (children t)))))"
  by (cases t) (simp add: insert_work_def)

lemma keeps_refl: "keeps t t"
  by (simp add: keeps_def)

lemma keeps_trans: "keeps t t' \<Longrightarrow> keeps t' t'' \<Longrightarrow> keeps t t''"
  by (auto simp: keeps_def)

lemma keeps_insert_work: "keeps t t' \<Longrightarrow> insert_work t' \<le> insert_work t"
  by (simp add: keeps_def insert_work_def)

lemma keeps_set_objects: "keeps t (set_objects t objs)"
  by (simp add: keeps_def set_objects_def work_eq)

lemma child_insert_work: "c \<in> set (children t) \<Longrightarrow> insert_work c < work t"
proof -
  assume "c \<in> set (children t)"
  then have "insert_work c \<le> Max (insert 0 (insert_work ` set (children t)))"
    by (intro Max_ge) auto
  then show ?thesis by (simp add: work_eq [of t])
qed

lemma keepsI:
  assumes "maxDepth t' = maxDepth t" and "depth t' = depth t"
    and "Max (insert 0 (insert_work ` set (children t')))
         \<le> max (maxDepth t - Suc (depth t)) (Max (insert 0 (insert_work ` set (children t))))"
  shows "keeps t t'"
proof -
  define k where "k = maxDepth t - Suc (depth t)"
  define m where "m = Max (insert 0 (insert_work ` set (children t)))"
  define m' where "m' = Max (insert 0 (insert_work ` set (children t')))"
  have "m' \<le> max k m" using assms(3) by (simp only: k_def m_def m'_def)
  then have "Suc (max k m') \<le> Suc (max k m)" by simp
  moreover have "work t = Suc (max k m)" by (simp only: work_eq [of t] k_def m_def)
  moreover have "work t' = Suc (max k m')"
    by (simp only: work_eq [of t'] k_def m'_def assms(1,2))
  ultimately show ?thesis using assms(1,2) by (simp add: keeps_def)
qed

lemma keeps_set_children:
  assumes "\<And>c. c \<in> set (children t) \<Longrightarrow> insert_work (f c) \<le> insert_work c"
  shows "keeps t (set_children t (map f (children t)))"
proof -
  have "Max (insert 0 (insert_work ` set (map f (children t))))
        \<le> Max (insert 0 (insert_work ` set (children t)))"
  proof (rule Max.boundedI)
    show "finite (insert 0 (insert_work ` set (map f (children t))))" by simp
    show "insert 0 (insert_work ` set (map f (children t))) \<noteq> {}" by simp
    fix n assume "n \<in> insert 0 (insert_work ` set (map f (children t)))"
    then consider "n = 0" | c where "c \<in> set (children t)" "n = insert_work (f c)" by auto
    then show "n \<le> Max (insert 0 (insert_work ` set (children t)))"
    proof cases
      case 1 then show ?thesis by simp
    next
      case 2
      have "insert_work c \<le> Max (insert 0 (insert_work ` set (children t)))"
        using 2(1) by (intro Max_ge) auto
      with assms [OF 2(1)] 2(2) show ?thesis by simp
    qed
  qed
  then have "Max (insert 0 (insert_work ` set (map f (children t))))
        \<le> max (maxDepth t - Suc (depth t)) (Max (insert 0 (insert_work ` set (children t))))"
    by (rule max.coboundedI2)
  then show ?thesis
    by (intro keepsI) (simp_all only: set_children_def Quadtree.sel)
qed

lemma insert_work_quadrant: "q \<in> set (quadrants t) \<Longrightarrow> insert_work q \<le> maxDepth t - Suc (depth t)"
  by (auto simp: quadrants_def Let_def new_Quadtree_def insert_work_def)

lemma keeps_quadrants:
  "keeps t (set_divided (set_children t (quadrants t @ drop 4 (children t))) True)"
proof -
  have "Max (insert 0 (insert_work ` set (quadrants t @ drop 4 (children t))))
        \<le> max (maxDepth t - Suc (depth t)) (Max (insert 0 (insert_work ` set (children t))))"
  proof (rule Max.boundedI)
    show "finite (insert 0 (insert_work ` set (quadrants t @ drop 4 (children t))))" by simp
    show "insert 0 (insert_work ` set (quadrants t @ drop 4 (children t))) \<noteq> {}" by simp
    fix n assume "n \<in> insert 0 (insert_work ` set (quadrants t @ drop 4 (children t)))"
    then consider "n = 0" | q where "q \<in> set (quadrants t)" "n = insert_work q"
      | c where "c \<in> set (drop 4 (children t))" "n = insert_work c" by auto
    then show "n \<le> max (maxDepth t - Suc (depth t)) (Max (insert 0 (insert_work ` set (children t))))"
    proof cases
      case 1 then show ?thesis by simp
    next
      case 2 then show ?thesis using insert_work_quadrant [of q t] by simp
    next
      case 3
      then have "c \<in> set (children t)" by (meson in_set_dropD)
      then have "insert_work c \<le> Max (insert 0 (insert_work ` set (children t)))"
        by (intro Max_ge) auto
      with 3 show ?thesis by simp
    qed
  qed
  then show ?thesis
    by (intro keepsI) (simp_all only: set_children_def set_divided_def Quadtree.sel)
qed

lemma keeps_partial:
  "(insert_qt_insertToChildren_subdivide_redistribute_dom (Inl (Inl (t, ob)))
      \<Longrightarrow> keeps t (fst (insert_qt t ob)))"
  "(insert_qt_insertToChildren_subdivide_redistribute_dom (Inl (Inr (t1, ob1)))
      \<Longrightarrow> keeps t1 (fst (insertToChildren t1 ob1)))"
  "(insert_qt_insertToChildren_subdivide_redistribute_dom (Inr (Inl t2))
      \<Longrightarrow> keeps t2 (subdivide t2))"
  "(insert_qt_insertToChildren_subdivide_redistribute_dom (Inr (Inr (t3, obs)))
      \<Longrightarrow> keeps t3 (redistribute t3 obs))"
proof (induction rule: insert_qt_insertToChildren_subdivide_redistribute.pinduct)
  case (1 t object)
  show ?case
  proof (cases "intersects t object
      \<and> \<not> (\<not> divided t \<and> length (objects t) < capacity t) \<and> \<not> maxDepth t \<le> depth t")
    case False
    then consider "\<not> intersects t object"
      | "intersects t object" "\<not> divided t \<and> length (objects t) < capacity t"
      | "intersects t object" "\<not> (\<not> divided t \<and> length (objects t) < capacity t)"
        "maxDepth t \<le> depth t"
      by blast
    then show ?thesis
    proof cases
      case 1
      then show ?thesis by (simp add: insert_qt.psimps [OF "1.hyps"] keeps_refl)
    next
      case 2
      then show ?thesis by (simp add: insert_qt.psimps [OF "1.hyps"] keeps_set_objects)
    next
      case 3
      then show ?thesis by (simp add: insert_qt.psimps [OF "1.hyps"] keeps_set_objects)
    qed
  next
    case True
    then have c: "\<not> \<not> intersects t object"
        "\<not> (\<not> divided t \<and> length (objects t) < capacity t)" "\<not> maxDepth t \<le> depth t"
      by auto
    have eq: "insert_qt t object = insertToChildren (if \<not> divided t then subdivide t else t) object"
      using c by (auto simp add: insert_qt.psimps [OF "1.hyps"])
    have k1: "keeps t (if \<not> divided t then subdivide t else t)"
      using "1.IH"(1) [OF c] by (simp add: keeps_refl)
    show ?thesis unfolding eq using keeps_trans [OF k1 "1.IH"(2) [OF c]] .
  qed
next
  case (2 t object)
  have "keeps t (set_children t
        (map (\<lambda>child. if contains child object then fst (insert_qt child object) else child)
           (children t)))"
    by (rule keeps_set_children) (use 2(2) in \<open>auto intro: keeps_insert_work\<close>)
  then show ?case using 2(1) by (simp add: insertToChildren.psimps)
next
  case (3 t)
  let ?t1 = "set_divided (set_children t (quadrants t @ drop 4 (children t))) True"
  have k: "keeps t (redistribute ?t1 (objects ?t1))"
    using keeps_trans [OF keeps_quadrants 3(2) [OF refl]] .
  have "keeps (redistribute ?t1 (objects ?t1)) (set_objects (redistribute ?t1 (objects ?t1)) [])"
    by (rule keeps_set_objects)
  with k show ?case using 3(1) by (simp add: subdivide.psimps Let_def keeps_trans)
next
  case (4 t)
  then show ?case by (simp add: redistribute.psimps keeps_refl)
next
  case (5 t object rest)
  then show ?case by (simp add: redistribute.psimps) (meson keeps_trans)
qed

termination insert_qt
proof (relation "inv_image (less_than <*lex*> less_than <*lex*> less_than)
     (\<lambda>a. case a of
        Inl (Inl (t, ob)) \<Rightarrow> (insert_work t, 3::nat, 0::nat)
      | Inl (Inr (t, ob)) \<Rightarrow> (work t, 0, 0)
      | Inr (Inl t) \<Rightarrow> (work t, 2, 0)
      | Inr (Inr (t, obs)) \<Rightarrow> (work t, 1, length obs))", goal_cases)
  case 1
  show ?case by (intro wf_inv_image wf_lex_prod wf_less_than)
next
  case (2 t object)
  then show ?case by (simp add: insert_work_def)
next
  case (3 t object)
  have "keeps t (if \<not> divided t then subdivide t else t)"
    using 3 keeps_partial(3) [of t] by (auto simp: keeps_refl)
  then show ?case using 3(3) by (auto simp: keeps_def insert_work_def)
next
  case (4 t object c)
  then show ?case using child_insert_work [of c t] by simp
next
  case (5 t t1)
  then show ?case using keeps_quadrants [of t] by (auto simp: keeps_def)
next
  case (6 t object rest)
  then show ?case by simp
next
  case (7 t object rest)
  then show ?case using keeps_partial(2) [of t object] by (auto simp: keeps_def)
qed


text \<open>
  The equations of \<open>insert\<close> and its companions rewrite a call into calls; they are used by
  name only.
\<close>

declare insert_qt.simps [simp del] insertToChildren.simps [simp del] subdivide.simps [simp del]

subsection \<open>Vector2D.divide\<close>

text \<open>
  C7. Dividing any vector by the scalar zero throws the error "Cannot divide vector by zero"
  and leaves both components of the vector as they were; dividing by any scalar other than
  zero returns normally, with both components divided.
\<close>

theorem divide_by_zero_throws:
  "divide_vec v 0 = Throw (Error ''Cannot divide vector by zero'') v
   \<and> (scalar \<noteq> 0 \<longrightarrow>
        divide_vec v scalar = Normal (v\<lparr>x := x v / scalar, y := y v / scalar\<rparr>))"
  by (simp add: divide_vec_def)

theorem divide_by_zero_throws_witness:
  "divide_vec \<lparr>x = 6, y = -4\<rparr> 0 = Throw (Error ''Cannot divide vector by zero'') \<lparr>x = 6, y = -4\<rparr>
   \<and> (2::real) \<noteq> 0
   \<and> divide_vec \<lparr>x = 6, y = -4\<rparr> 2 = Normal \<lparr>x = 3, y = -2\<rparr>"
  using divide_by_zero_throws [of "\<lparr>x = 6, y = -4\<rparr>" 2] by simp

subsection \<open>Square roots of the examples\<close>

lemma sqrt_25: "sqrt 25 = 5"
  using real_sqrt_abs [of 5] by simp

lemma sqrt_100: "sqrt 100 = 10"
  using real_sqrt_abs [of 10] by simp

lemma sqrt_900: "sqrt 900 = 30"
  using real_sqrt_abs [of 30] by simp

lemma sqrt_1225: "sqrt 1225 = 35"
  using real_sqrt_abs [of 35] by simp

lemma sqrt_1600: "sqrt 1600 = 40"
  using real_sqrt_abs [of 40] by simp

lemmas ball_examples = Ball_new_def Let_def touchingA_def touchingB_def overlapA_def overlapB_def
  frozenA_def movingB_def leftBottomBall_def rightBall_def straddler_def cornerBall_def probe_def

subsection \<open>Collision detection\<close>

text \<open>
  C3. Both detectors, \<open>PhysicsSystem.areColliding\<close> and \<open>Ball.isCollidingWith\<close>, report two
  balls as colliding exactly when the distance of their centres is strictly less than the sum
  of their radii; when the distance equals the sum (the balls touch), neither reports a
  collision.
\<close>

theorem collision_is_strict_overlap:
  "areColliding a b =
     (sqrt ((x (position a) - x (position b)) * (x (position a) - x (position b))
          + (y (position a) - y (position b)) * (y (position a) - y (position b)))
        < size_ball a + size_ball b)
   \<and> isCollidingWith a b = areColliding a b
   \<and> (distance (position a) (position b) = size_ball a + size_ball b
        \<longrightarrow> \<not> areColliding a b \<and> \<not> isCollidingWith a b)"
  by (simp add: areColliding_def isCollidingWith_def distance_def Let_def)

theorem collision_is_strict_overlap_witness:
  "distance (position touchingA) (position touchingB) = size_ball touchingA + size_ball touchingB
   \<and> \<not> areColliding touchingA touchingB \<and> \<not> isCollidingWith touchingA touchingB"
proof -
  have d: "distance (position touchingA) (position touchingB)
           = size_ball touchingA + size_ball touchingB"
    by (simp add: distance_def ball_examples sqrt_1600)
  with collision_is_strict_overlap [of touchingA touchingB] show ?thesis by blast
qed

subsection \<open>Ball.freeze and Ball.unfreeze\<close>

text \<open>
  C10. With the identifier \<open>a\<close> unbound, \<open>freeze\<close> never returns normally: it sets \<open>isFrozen\<close>
  and zeroes the velocity, then throws a ReferenceError, so the acceleration is left as it
  was. \<open>unfreeze\<close> always returns normally and changes nothing but \<open>isFrozen\<close>, which it
  clears.
\<close>

theorem freeze_throws_reference_error:
  "scope ''a'' = None \<Longrightarrow>
     freeze scope b = Throw (ReferenceError ''a is not defined'')
                        (b\<lparr>isFrozen := True, velocity := \<lparr>x = 0, y = 0\<rparr>\<rparr>)
     \<and> acceleration (state_of (freeze scope b)) = acceleration b
     \<and> unfreeze b = Normal (b\<lparr>isFrozen := False\<rparr>)"
  by (simp add: freeze_def unfreeze_def set_vec_def)

theorem freeze_throws_reference_error_witness:
  "Map.empty ''a'' = (None :: real option)
   \<and> freeze Map.empty rightBall
       = Throw (ReferenceError ''a is not defined'')
           (rightBall\<lparr>isFrozen := True, velocity := \<lparr>x = 0, y = 0\<rparr>\<rparr>)
   \<and> acceleration (state_of (freeze Map.empty rightBall)) = acceleration rightBall
   \<and> unfreeze rightBall = Normal (rightBall\<lparr>isFrozen := False\<rparr>)"
  using freeze_throws_reference_error [of Map.empty rightBall] by simp

subsection \<open>Boundary containment\<close>

text \<open>
  C8. The boundary checks treat the two axes independently. On each axis, a ball across the
  low edge is put back at \<open>size\<close> and a ball across the high edge (and not the low one) at
  \<open>extent - size\<close>, in both cases with that velocity component replaced by \<open>-v * 0.8\<close>; a
  ball across neither edge keeps its coordinate and velocity component. A ball at
  \<open>x = 5\<close> of size 20 with \<open>velocity.x = -30\<close> ends at \<open>x = 20\<close> with \<open>velocity.x = 24\<close>.
\<close>

theorem boundary_containment:
  "(x (position b) - size_ball b < 0 \<longrightarrow>
      x (position (boundaryChecks dims b)) = size_ball b
      \<and> x (velocity (boundaryChecks dims b)) = - x (velocity b) * 0.8)
   \<and> (\<not> x (position b) - size_ball b < 0 \<and> x (position b) + size_ball b > width dims \<longrightarrow>
      x (position (boundaryChecks dims b)) = width dims - size_ball b
      \<and> x (velocity (boundaryChecks dims b)) = - x (velocity b) * 0.8)
   \<and> (\<not> x (position b) - size_ball b < 0 \<and> \<not> x (position b) + size_ball b > width dims \<longrightarrow>
      x (position (boundaryChecks dims b)) = x (position b)
      \<and> x (velocity (boundaryChecks dims b)) = x (velocity b))
   \<and> (y (position b) - size_ball b < 0 \<longrightarrow>
      y (position (boundaryChecks dims b)) = size_ball b
      \<and> y (velocity (boundaryChecks dims b)) = - y (velocity b) * 0.8)
   \<and> (\<not> y (position b) - size_ball b < 0 \<and> y (position b) + size_ball b > height dims \<longrightarrow>
      y (position (boundaryChecks dims b)) = height dims - size_ball b
      \<and> y (velocity (boundaryChecks dims b)) = - y (velocity b) * 0.8)
   \<and> (\<not> y (position b) - size_ball b < 0 \<and> \<not> y (position b) + size_ball b > height dims \<longrightarrow>
      y (position (boundaryChecks dims b)) = y (position b)
      \<and> y (velocity (boundaryChecks dims b)) = y (velocity b))"
  by (simp add: boundaryChecks_def Let_def)

theorem boundary_containment_witness:
  "x (position leftBottomBall) = 5 \<and> size_ball leftBottomBall = 20
   \<and> x (velocity leftBottomBall) = - 30
   \<and> x (position leftBottomBall) - size_ball leftBottomBall < 0
   \<and> x (position (boundaryChecks arena leftBottomBall)) = 20
   \<and> x (velocity (boundaryChecks arena leftBottomBall)) = 24
   \<and> \<not> y (position leftBottomBall) - size_ball leftBottomBall < 0
   \<and> y (position leftBottomBall) + size_ball leftBottomBall > height arena
   \<and> y (position (boundaryChecks arena leftBottomBall)) = 580
   \<and> y (velocity (boundaryChecks arena leftBottomBall)) = - 8
   \<and> \<not> x (position rightBall) - size_ball rightBall < 0
   \<and> x (position rightBall) + size_ball rightBall > width arena
   \<and> x (position (boundaryChecks arena rightBall)) = 780
   \<and> x (velocity (boundaryChecks arena rightBall)) = - 32
   \<and> \<not> y (position rightBall) - size_ball rightBall < 0
   \<and> \<not> y (position rightBall) + size_ball rightBall > height arena
   \<and> y (position (boundaryChecks arena rightBall)) = 300
   \<and> y (velocity (boundaryChecks arena rightBall)) = 5"
  using boundary_containment [of leftBottomBall arena] boundary_containment [of rightBall arena]
  by (simp add: ball_examples arena_def)

subsection \<open>The engine tick\<close>

lemma normalize_vec_returns: "thrown (normalize_vec v) = None"
  by (simp add: normalize_vec_def Let_def divide_vec_def)

lemma limit_returns: "thrown (limit v m) = None"
  using normalize_vec_returns [of v]
  by (cases "normalize_vec v") (simp_all add: limit_def Let_def)

lemma Ball_update_returns: "thrown (Ball_update b dt) = None"
proof (cases "isFrozen b")
  case True
  then show ?thesis by (simp add: Ball_update_def)
next
  case False
  let ?b1 = "if gravity b \<noteq> 0 then b\<lparr>acceleration := (acceleration b)\<lparr>y := gravity b\<rparr>\<rparr> else b"
  let ?v = "add (velocity ?b1) \<lparr>x = x (acceleration ?b1) * dt, y = y (acceleration ?b1) * dt\<rparr>"
  obtain v' where "limit ?v maxVelocity = Normal v'"
    using limit_returns [of ?v maxVelocity] by (cases "limit ?v maxVelocity") simp_all
  with False show ?thesis by (simp add: Ball_update_def Let_def)
qed

lemma forEach_update_eq:
  "forEach_update bs dt = Normal (map (\<lambda>b. state_of (Ball_update b dt)) bs)"
proof (induction bs)
  case Nil
  show ?case by simp
next
  case (Cons b bs)
  obtain b' where "Ball_update b dt = Normal b'"
    using Ball_update_returns [of b dt] by (cases "Ball_update b dt") simp_all
  with Cons show ?case by simp
qed

lemma Engine_update_eq:
  "Engine_update e dt =
     Normal (if isPaused e then e
             else e\<lparr>balls := map (\<lambda>b. boundaryChecks (getCanvasDimensions e)
                                        (state_of (Ball_update b dt))) (balls e)\<rparr>)"
  by (simp add: Engine_update_def forEach_update_eq Let_def comp_def)

text \<open>
  C9. \<open>Engine.update\<close> always returns normally, and what it does to a ball depends on that
  ball, the elapsed time, the canvas and the pause flag only: unless the engine is paused,
  the ball is integrated by \<open>Ball.update\<close> and then put through the boundary checks, and no
  other ball is read. So two engines with the same pause flag and canvas that hold the same
  ball at index \<open>i\<close> hold the same ball there after the tick, whatever their other balls are.
\<close>

theorem engine_tick_noninterference:
  assumes "isPaused e1 = isPaused e2" and "canvas e1 = canvas e2"
    and "i < length (balls e1)" and "i < length (balls e2)"
    and "balls e1 ! i = balls e2 ! i"
  shows "thrown (Engine_update e1 dt) = None \<and> thrown (Engine_update e2 dt) = None
     \<and> balls (state_of (Engine_update e1 dt)) ! i = balls (state_of (Engine_update e2 dt)) ! i
     \<and> balls (state_of (Engine_update e1 dt)) ! i =
         (if isPaused e1 then balls e1 ! i
          else boundaryChecks (getCanvasDimensions e1) (state_of (Ball_update (balls e1 ! i) dt)))"
  using assms by (simp add: Engine_update_eq getCanvasDimensions_def)

theorem engine_tick_noninterference_witness:
  "isPaused engineA = isPaused engineB \<and> canvas engineA = canvas engineB
   \<and> 0 < length (balls engineA) \<and> 0 < length (balls engineB)
   \<and> balls engineA ! 0 = balls engineB ! 0 \<and> balls engineA ! 1 \<noteq> balls engineB ! 1
   \<and> thrown (Engine_update engineA (1/10)) = None
   \<and> thrown (Engine_update engineB (1/10)) = None
   \<and> balls (state_of (Engine_update engineA (1/10))) ! 0
       = balls (state_of (Engine_update engineB (1/10))) ! 0"
proof -
  have h: "isPaused engineA = isPaused engineB" "canvas engineA = canvas engineB"
      "0 < length (balls engineA)" "0 < length (balls engineB)"
      "balls engineA ! 0 = balls engineB ! 0"
    by (simp_all add: engineA_def engineB_def)
  have n: "balls engineA ! 1 \<noteq> balls engineB ! 1"
    by (simp add: engineA_def engineB_def ball_examples)
  from engine_tick_noninterference [OF h, of "1/10"] h n show ?thesis by blast
qed

subsection \<open>Pair generation\<close>

lemma areColliding_movingB_frozenA: "areColliding movingB frozenA"
  by (simp add: areColliding_def distance_def ball_examples sqrt_900)

text \<open>
  C2. The claim: a pair is skipped only when both balls are frozen, so a pair of overlapping
  balls with one frozen member reaches resolution. The code skips a pair as soon as one of
  the two is frozen. For the moving ball \<open>movingB\<close> and the frozen ball \<open>frozenA\<close>, which
  overlap, no pair is generated in either order, and the update leaves both untouched.
\<close>

theorem frozen_partner_pair_is_skipped:
  "\<not> isFrozen movingB \<and> isFrozen frozenA \<and> areColliding movingB frozenA
   \<and> generateCollisionPairs [movingB, frozenA] = []
   \<and> generateCollisionPairs [frozenA, movingB] = []
   \<and> PhysicsSystem_update [movingB, frozenA] (1/60) arena = Normal [movingB, frozenA]"
proof -
  have u: "[0..<2] = [0, 1]" "[Suc 0..<2] = [1]" "[2..<2] = []"
    by (simp_all add: upt_rec)
  have f: "\<not> isFrozen movingB" "isFrozen frozenA"
    by (simp_all add: ball_examples)
  have g1: "generateCollisionPairs [movingB, frozenA] = []"
    by (simp add: generateCollisionPairs_def u f)
  have g2: "generateCollisionPairs [frozenA, movingB] = []"
    by (simp add: generateCollisionPairs_def u f)
  show ?thesis using f areColliding_movingB_frozenA g1 g2
    by (simp add: PhysicsSystem_update_def)
qed

subsection \<open>The contact normal\<close>

lemma Vector2D_update_all: "(v :: Vector2D)\<lparr>x := p, y := q\<rparr> = \<lparr>x = p, y = q\<rparr>"
  by (cases v) simp

lemma magnitude_distance:
  "magnitude \<lparr>x = x (position b) - x (position a), y = y (position b) - y (position a)\<rparr>
   = distance (position a) (position b)"
  by (simp add: magnitude_def distance_def Let_def algebra_simps)

lemma normal_step:
  "(if magnitude \<lparr>x = x (position b) - x (position a), y = y (position b) - y (position a)\<rparr> = 0
    then Normal (set_vec \<lparr>x = x (position b) - x (position a),
                          y = y (position b) - y (position a)\<rparr> 1 0)
    else normalize_vec \<lparr>x = x (position b) - x (position a),
                        y = y (position b) - y (position a)\<rparr>)
   = Normal (contactNormal a b)"
proof -
  let ?s = "(x (position b) - x (position a)) * (x (position b) - x (position a))
          + (y (position b) - y (position a)) * (y (position b) - y (position a))"
  have "0 \<le> sqrt ?s" by simp
  then have "sqrt ?s \<noteq> 0 \<Longrightarrow> 0 < sqrt ?s" by linarith
  then show ?thesis
    by (auto simp add: magnitude_def contactNormal_def distance_def Let_def set_vec_def
        normalize_vec_def divide_vec_def)
qed

lemma quotient_squares:
  fixes p q r :: real
  shows "(p / r) * (p / r) + (q / r) * (q / r) = (p * p + q * q) / (r * r)"
  by (simp add: add_divide_distrib)

lemma unit_quotients:
  fixes p q :: real
  assumes "sqrt (p * p + q * q) \<noteq> 0"
  shows "(p / sqrt (p * p + q * q)) * (p / sqrt (p * p + q * q))
       + (q / sqrt (p * p + q * q)) * (q / sqrt (p * p + q * q)) = 1"
proof -
  have nz: "p * p + q * q \<noteq> 0" using assms by auto
  have sq: "sqrt (p * p + q * q) * sqrt (p * p + q * q) = p * p + q * q" by simp
  have "(p * p + q * q) / (p * p + q * q) = 1" using nz by simp
  then show ?thesis unfolding quotient_squares sq .
qed

lemma contactNormal_unit: "dot (contactNormal a b) (contactNormal a b) = 1"
  using unit_quotients [of "x (position b) - x (position a)" "y (position b) - y (position a)"]
  by (simp add: contactNormal_def distance_def Let_def dot_def)

lemma contactNormal_overlap: "contactNormal overlapA overlapB = \<lparr>x = 1, y = 0\<rparr>"
  by (simp add: contactNormal_def distance_def ball_examples sqrt_900)

lemma penetrationDepth_overlap: "penetrationDepth overlapA overlapB = 10"
  by (simp add: penetrationDepth_def distance_def ball_examples sqrt_900)

lemma contactNormal_frozen: "contactNormal frozenA movingB = \<lparr>x = 1, y = 0\<rparr>"
  by (simp add: contactNormal_def distance_def ball_examples sqrt_900)

lemma penetrationDepth_frozen: "penetrationDepth frozenA movingB = 10"
  by (simp add: penetrationDepth_def distance_def ball_examples sqrt_900)

subsection \<open>Positional correction\<close>

lemma resolveCollision_positions:
  "position (fst (state_of (resolveCollision a b dt))) =
      (if isFrozen a then position a
       else subtract (position a)
              (multiply (contactNormal a b)
                 (penetrationDepth a b * (mass b / (mass a + mass b)))))
   \<and> position (snd (state_of (resolveCollision a b dt))) =
      (if isFrozen b then position b
       else add (position b)
              (multiply (contactNormal a b)
                 (penetrationDepth a b * (mass a / (mass a + mass b)))))"
  unfolding resolveCollision_def Let_def normal_step
  by (simp add: magnitude_distance penetrationDepth_def clone_def multiply_def
       subtractImpulse_def addImpulse_def divide_vec_def Vector2D_update_all
      split: completion.splits)

lemma distance_frozen: "distance (position frozenA) (position movingB) = 30"
  by (simp add: distance_def ball_examples sqrt_900)

lemma resolveCollision_frozen_pair:
  "resolveCollision frozenA movingB (1/60)
   = Normal (frozenA, movingB\<lparr>position := \<lparr>x = 35, y = 0\<rparr>, velocity := \<lparr>x = - 1, y = 0\<rparr>\<rparr>)"
  unfolding resolveCollision_def Let_def normal_step
  unfolding contactNormal_frozen magnitude_distance distance_frozen
  by (simp add: ball_examples clone_def multiply_def add_def subtract_def dot_def
      subtractImpulse_def addImpulse_def divide_vec_def)

text \<open>
  Two balls of mass 400, neither frozen, that overlap by 10: each moves by 5, and afterwards
  their centres are as far apart as the sum of their radii.
\<close>

lemma unfrozen_pair_is_separated:
  "\<not> isFrozen overlapA \<and> \<not> isFrozen overlapB \<and> penetrationDepth overlapA overlapB = 10
   \<and> position (fst (state_of (resolveCollision overlapA overlapB (1/60)))) = \<lparr>x = 90, y = 100\<rparr>
   \<and> position (snd (state_of (resolveCollision overlapA overlapB (1/60)))) = \<lparr>x = 130, y = 100\<rparr>
   \<and> distance \<lparr>x = 90, y = 100\<rparr> \<lparr>x = 130, y = 100\<rparr> = size_ball overlapA + size_ball overlapB"
proof -
  have d: "distance \<lparr>x = 90, y = 100\<rparr> \<lparr>x = 130, y = 100\<rparr> = 40"
    by (simp add: distance_def sqrt_1600)
  from resolveCollision_positions [of overlapA overlapB "1/60"] penetrationDepth_overlap d
  show ?thesis
    unfolding contactNormal_overlap penetrationDepth_overlap
    by (simp add: ball_examples subtract_def add_def multiply_def)
qed

text \<open>
  C4. The claim: the penetration depth is split between the two balls in inverse proportion
  to their masses, a frozen ball is not displaced, and next to a frozen ball the other ball
  alone corrects, by the full depth. The code computes the two shares from both masses and
  only guards each displacement by \<open>!isFrozen\<close>; the share of a frozen ball is given to
  nobody. \<open>frozenA\<close> is frozen, \<open>movingB\<close> is not, both have mass 400 and they overlap
  by 10: the resolution returns normally, leaves \<open>frozenA\<close> in place and moves \<open>movingB\<close>
  from \<open>x = 30\<close> to \<open>x = 35\<close>, by 5 and not by 10, so that the two still overlap by 5 and
  still collide.
\<close>

theorem frozen_partner_keeps_overlap:
  "isFrozen frozenA \<and> \<not> isFrozen movingB \<and> penetrationDepth frozenA movingB = 10
   \<and> position (fst (state_of (resolveCollision frozenA movingB (1/60)))) = position frozenA
   \<and> position (snd (state_of (resolveCollision frozenA movingB (1/60)))) = \<lparr>x = 35, y = 0\<rparr>
   \<and> distance (position (snd (state_of (resolveCollision frozenA movingB (1/60)))))
        (position movingB) = 5
   \<and> distance (position (snd (state_of (resolveCollision frozenA movingB (1/60)))))
        (position movingB) \<noteq> penetrationDepth frozenA movingB
   \<and> thrown (resolveCollision frozenA movingB (1/60)) = None
   \<and> penetrationDepth (fst (state_of (resolveCollision frozenA movingB (1/60))))
        (snd (state_of (resolveCollision frozenA movingB (1/60)))) = 5
   \<and> areColliding (fst (state_of (resolveCollision frozenA movingB (1/60))))
        (snd (state_of (resolveCollision frozenA movingB (1/60))))"
  unfolding resolveCollision_frozen_pair penetrationDepth_frozen
  by (simp add: ball_examples distance_def penetrationDepth_def areColliding_def
      sqrt_25 sqrt_1225)

subsection \<open>Restitution\<close>

text \<open>
  The velocities after the resolution of two balls of equal mass, neither frozen, that do not
  separate along the normal: the impulse per mass is \<open>-0.9 * vn\<close> along the normal and
  \<open>-0.025 * vt\<close> along the tangent.
\<close>

lemma resolveCollision_equal_mass:
  assumes m: "mass a = mass b" "mass a \<noteq> 0"
    and nf: "\<not> isFrozen a" "\<not> isFrozen b"
    and ap: "dot (relativeVelocity a b) (contactNormal a b) \<le> 0"
  shows "thrown (resolveCollision a b dt) = None
     \<and> velocity (fst (state_of (resolveCollision a b dt))) =
        \<lparr>x = x (velocity a)
               + (9/10) * dot (relativeVelocity a b) (contactNormal a b) * x (contactNormal a b)
               - (1/40) * dot (relativeVelocity a b)
                            \<lparr>x = - y (contactNormal a b), y = x (contactNormal a b)\<rparr>
                   * y (contactNormal a b),
         y = y (velocity a)
               + (9/10) * dot (relativeVelocity a b) (contactNormal a b) * y (contactNormal a b)
               + (1/40) * dot (relativeVelocity a b)
                            \<lparr>x = - y (contactNormal a b), y = x (contactNormal a b)\<rparr>
                   * x (contactNormal a b)\<rparr>
     \<and> velocity (snd (state_of (resolveCollision a b dt))) =
        \<lparr>x = x (velocity b)
               - (9/10) * dot (relativeVelocity a b) (contactNormal a b) * x (contactNormal a b)
               + (1/40) * dot (relativeVelocity a b)
                            \<lparr>x = - y (contactNormal a b), y = x (contactNormal a b)\<rparr>
                   * y (contactNormal a b),
         y = y (velocity b)
               - (9/10) * dot (relativeVelocity a b) (contactNormal a b) * y (contactNormal a b)
               - (1/40) * dot (relativeVelocity a b)
                            \<lparr>x = - y (contactNormal a b), y = x (contactNormal a b)\<rparr>
                   * x (contactNormal a b)\<rparr>"
proof -
  have le: "\<not> 0 < dot \<lparr>x = x (velocity b) - x (velocity a),
                        y = y (velocity b) - y (velocity a)\<rparr> (contactNormal a b)"
    using ap by (simp add: relativeVelocity_def)
  show ?thesis
    unfolding resolveCollision_def Let_def normal_step
    using m nf le
    by (simp add: relativeVelocity_def clone_def multiply_def add_def subtract_def
        subtractImpulse_def addImpulse_def divide_vec_def Vector2D_update_all field_simps)
qed

lemma normal_component_algebra:
  fixes vax vay vbx vby nx ny p t :: real
  shows "((vbx - 9/10 * p * nx + 1/40 * t * ny) - (vax + 9/10 * p * nx - 1/40 * t * ny)) * nx
       + ((vby - 9/10 * p * ny - 1/40 * t * nx) - (vay + 9/10 * p * ny + 1/40 * t * nx)) * ny
       = ((vbx - vax) * nx + (vby - vay) * ny) - (9/5) * p * (nx * nx + ny * ny)"
  by (simp add: algebra_simps)

text \<open>
  C5. When two balls of equal (nonzero) mass, neither frozen, approach each other along the
  contact normal, \<open>resolveCollision\<close> returns normally, and afterwards the velocity of B
  relative to A along that normal is \<open>-0.8\<close> times what it was: the balls separate at 0.8
  times the closing speed. The friction impulse acts along the tangent and leaves this
  component alone.
\<close>

theorem restitution_equal_mass:
  assumes "mass a = mass b" and "mass a \<noteq> 0"
    and "\<not> isFrozen a" and "\<not> isFrozen b"
    and "dot (relativeVelocity a b) (contactNormal a b) < 0"
  shows "thrown (resolveCollision a b dt) = None
     \<and> dot (relativeVelocity (fst (state_of (resolveCollision a b dt)))
                              (snd (state_of (resolveCollision a b dt))))
            (contactNormal a b)
         = - 0.8 * dot (relativeVelocity a b) (contactNormal a b)
     \<and> \<bar>dot (relativeVelocity (fst (state_of (resolveCollision a b dt)))
                               (snd (state_of (resolveCollision a b dt))))
             (contactNormal a b)\<bar>
         = 0.8 * \<bar>dot (relativeVelocity a b) (contactNormal a b)\<bar>"
proof -
  let ?n = "contactNormal a b"
  let ?r = "resolveCollision a b dt"
  let ?vn = "dot (relativeVelocity a b) ?n"
  let ?vt = "dot (relativeVelocity a b) \<lparr>x = - y ?n, y = x ?n\<rparr>"
  have le: "?vn \<le> 0" using assms(5) by simp
  note ex = resolveCollision_equal_mass [OF assms(1-4) le, of dt]
  have u: "x ?n * x ?n + y ?n * y ?n = 1"
    using contactNormal_unit [of a b] by (simp add: dot_def)
  have "dot (relativeVelocity (fst (state_of ?r)) (snd (state_of ?r))) ?n
        = ?vn - (9/5) * ?vn * (x ?n * x ?n + y ?n * y ?n)"
    unfolding relativeVelocity_def [of "fst (state_of ?r)"] conjunct1 [OF conjunct2 [OF ex]]
       conjunct2 [OF conjunct2 [OF ex]]
    using normal_component_algebra [of "x (velocity b)" ?vn "x ?n" ?vt "y ?n" "x (velocity a)"
        "y (velocity b)" "y (velocity a)"]
    by (simp add: dot_def relativeVelocity_def)
  also have "\<dots> = - 0.8 * ?vn" unfolding u by simp
  finally have eq:
    "dot (relativeVelocity (fst (state_of ?r)) (snd (state_of ?r))) ?n = - 0.8 * ?vn" .
  have "\<bar>- 0.8 * ?vn\<bar> = 0.8 * \<bar>?vn\<bar>" by (simp add: abs_mult)
  with eq ex show ?thesis by simp
qed

theorem restitution_equal_mass_witness:
  "mass overlapA = mass overlapB \<and> mass overlapA \<noteq> 0
   \<and> \<not> isFrozen overlapA \<and> \<not> isFrozen overlapB
   \<and> dot (relativeVelocity overlapA overlapB) (contactNormal overlapA overlapB) = - 100
   \<and> thrown (resolveCollision overlapA overlapB (1/10)) = None
   \<and> dot (relativeVelocity (fst (state_of (resolveCollision overlapA overlapB (1/10))))
                            (snd (state_of (resolveCollision overlapA overlapB (1/10)))))
          (contactNormal overlapA overlapB) = 80"
proof -
  have h: "mass overlapA = mass overlapB" "mass overlapA \<noteq> 0"
      "\<not> isFrozen overlapA" "\<not> isFrozen overlapB"
    by (simp_all add: ball_examples)
  have v: "dot (relativeVelocity overlapA overlapB) (contactNormal overlapA overlapB) = - 100"
    unfolding contactNormal_overlap by (simp add: dot_def relativeVelocity_def ball_examples)
  then have neg: "dot (relativeVelocity overlapA overlapB) (contactNormal overlapA overlapB) < 0"
    by simp
  from restitution_equal_mass [OF h neg, of "1/10"] h v show ?thesis by simp
qed

subsection \<open>Quadtree.insert and Quadtree.query\<close>

lemmas quadtree_examples = arenaTree_def oneBallTree_def splitTree_def quadrantNE_def
  quadrantNW_def quadrantSW_def quadrantSE_def

lemmas quadtree_eval = insert_qt.simps insertToChildren.simps subdivide.simps intersects_def
  contains_def set_objects_def set_children_def set_divided_def quadrants_def new_Quadtree_def

text \<open>
  What \<open>insert\<close> returns: \<open>false\<close> and the node as it was when the ball's box misses the
  bounds; \<open>true\<close> with the ball appended when the node is a leaf with room or is at the
  maximal depth; \<open>undefined\<close> in every other case.
\<close>

lemma insert_qt_returns:
  "insert_qt t ob =
     (if \<not> intersects t ob then (t, JBool False)
      else if (\<not> divided t \<and> length (objects t) < capacity t) \<or> maxDepth t \<le> depth t
        then (set_objects t (objects t @ [ob]), JBool True)
      else (fst (insert_qt t ob), JUndefined))"
  by (simp add: insert_qt.simps [of t ob] insertToChildren.simps)

lemma insert_straddler: "insert_qt arenaTree straddler = (oneBallTree, JBool True)"
  by (simp add: quadtree_examples quadtree_eval ball_examples)

lemma insert_cornerBall: "insert_qt oneBallTree cornerBall = (splitTree, JUndefined)"
  by (simp add: quadtree_examples quadtree_eval ball_examples)

lemma insert_straddler_again: "insert_qt splitTree straddler = (splitTree, JUndefined)"
  by (simp add: quadtree_examples quadtree_eval ball_examples)

lemma query_probe: "query splitTree probe [] = [cornerBall]"
  by (simp add: quadtree_examples quadtree_eval ball_examples)

lemma areColliding_straddler_probe: "areColliding straddler probe"
proof -
  have "sqrt 4 = 2" using real_sqrt_abs [of 2] by simp
  then show ?thesis by (simp add: areColliding_def distance_def ball_examples)
qed

text \<open>
  C1. The claim: a query returns every inserted ball whose circle overlaps the query ball's
  box, also a ball that lay across a child border when its node was subdivided. The code
  hands a ball to a child only when the child's bounds contain the ball's whole box. In
  \<open>arenaTree\<close> (capacity 1) \<open>straddler\<close> is inserted with result \<open>true\<close>; inserting
  \<open>cornerBall\<close> subdivides the root, and \<open>straddler\<close>, which no quadrant contains, is in no
  node afterwards. \<open>probe\<close> overlaps \<open>straddler\<close> (their centres are 2 apart, the radii 5 and
  5), yet the query with \<open>probe\<close> returns \<open>cornerBall\<close> alone.
\<close>

theorem straddling_ball_is_lost:
  "insert_qt arenaTree straddler = (oneBallTree, JBool True)
   \<and> fst (insert_qt oneBallTree cornerBall) = splitTree
   \<and> areColliding straddler probe
   \<and> x (position probe) - size_ball probe \<le> x (position straddler)
   \<and> x (position straddler) \<le> x (position probe) + size_ball probe
   \<and> y (position probe) - size_ball probe \<le> y (position straddler)
   \<and> y (position straddler) \<le> y (position probe) + size_ball probe
   \<and> straddler \<noteq> probe
   \<and> query splitTree probe [] = [cornerBall]
   \<and> straddler \<notin> set (query splitTree probe [])"
  unfolding insert_straddler insert_cornerBall query_probe
  using areColliding_straddler_probe by (simp add: ball_examples)

text \<open>
  C6. The claim: past the two direct cases, \<open>insert\<close> puts the ball into every child whose
  bounds its box intersects and returns true exactly when some child took it. The code
  returns \<open>undefined\<close> there, and a child takes the ball only when it contains the whole box.
  Inserting \<open>cornerBall\<close> into \<open>oneBallTree\<close> stores it in the north-west child and returns
  \<open>undefined\<close>; inserting \<open>straddler\<close> into \<open>splitTree\<close>, where its box intersects all four
  children, changes nothing and returns \<open>undefined\<close>.
\<close>

theorem insert_into_children_returns_undefined:
  "insert_qt oneBallTree cornerBall = (splitTree, JUndefined)
   \<and> cornerBall \<in> set (objects (children splitTree ! 1))
   \<and> insert_qt splitTree straddler = (splitTree, JUndefined)
   \<and> intersects (children splitTree ! 0) straddler
   \<and> intersects (children splitTree ! 1) straddler
   \<and> intersects (children splitTree ! 2) straddler
   \<and> intersects (children splitTree ! 3) straddler
   \<and> straddler \<notin> set (objects (children splitTree ! 0))
   \<and> straddler \<notin> set (objects (children splitTree ! 1))
   \<and> straddler \<notin> set (objects (children splitTree ! 2))
   \<and> straddler \<notin> set (objects (children splitTree ! 3))"
  unfolding insert_cornerBall insert_straddler_again
  by (simp add: quadtree_examples intersects_def ball_examples)

end
